theory Spec2Isabelle
  imports Main "HOL-Library.AList"
begin

section \<open>Data model\<close>

subsection \<open>Site configuration (faithbridgeOptions.ts)\<close>

text \<open>
  The TypeScript numeric enum \<^verbatim>\<open>RefChange\<close>. Its members carry the values 0 to 3 in
  declaration order; the code tests such a value for truthiness, so the values are kept.
\<close>

datatype RefChange = DoNotWatch | WatchBookChange | WatchChapterChange | WatchVerseChange

fun RefChange_value :: "RefChange \<Rightarrow> nat" where
  "RefChange_value DoNotWatch = 0"
| "RefChange_value WatchBookChange = 1"
| "RefChange_value WatchChapterChange = 2"
| "RefChange_value WatchVerseChange = 3"

text \<open>
  \<^verbatim>\<open>SerializedVerseRef\<close> of the scripture library: book identifier, chapter and verse
  number, and the two optional string fields. Chapter and verse numbers are integers.
\<close>

record SerializedVerseRef =
  book :: string
  chapterNum :: int
  verseNum :: int
  verse :: "string option"
  versificationStr :: "string option"

record FaithbridgeOptions =
  getUrl :: "SerializedVerseRef \<Rightarrow> string list \<Rightarrow> string"
  websiteName :: string
  watchRefChange :: RefChange

definition DEFAULT_FAITHBRIDGE_OPTIONS :: FaithbridgeOptions where
  "DEFAULT_FAITHBRIDGE_OPTIONS =
     \<lparr>getUrl = (\<lambda>_ _. ''''), websiteName = '''', watchRefChange = DoNotWatch\<rparr>"

text \<open>
  A JavaScript \<^verbatim>\<open>Map\<close> iterates in insertion order and holds each key once. It is an
  association list: \<open>map_of\<close> is \<^verbatim>\<open>get\<close>, \<open>AList.update\<close> is \<^verbatim>\<open>set\<close> (the value
  is replaced in place, a new key goes to the end), \<open>AList.delete\<close> is \<^verbatim>\<open>delete\<close>, and
  the list itself is \<^verbatim>\<open>entries()\<close>. Keys are distinct in every list built by
  these operations from the empty list.
\<close>

type_synonym ('k, 'v) js_map = "('k \<times> 'v) list"

definition getWebsiteOptions :: "(string, FaithbridgeOptions) js_map" where
  "getWebsiteOptions =
     (let faithbridgeOptions =
        \<lparr>getUrl = (\<lambda>scrRef interfaceLanguage. ''https://faithbridge.multilingualai.com/bible-well''),
         websiteName = ''Faithbridge'',
         watchRefChange = WatchVerseChange\<rparr>
      in [(''faithbridge.openFaithbridge'', faithbridgeOptions)])"

subsection \<open>Change detection policy\<close>

text \<open>
  \<^verbatim>\<open>shouldUpdateOnScriptureRefChange\<close> reads the module variable \<^verbatim>\<open>websiteOptions\<close>,
  here its first argument. \<^verbatim>\<open>websiteOptions.get(commandKey)?.watchRefChange\<close> is
  undefined for a missing entry; \<^verbatim>\<open>!watchRefChange\<close> holds for undefined and for the
  enum value 0.
\<close>

definition shouldUpdateOnScriptureRefChange ::
  "(string, FaithbridgeOptions) js_map \<Rightarrow> string \<Rightarrow> SerializedVerseRef \<Rightarrow> SerializedVerseRef \<Rightarrow> bool" where
  "shouldUpdateOnScriptureRefChange websiteOptions commandKey oldRef newRef =
     (case map_option watchRefChange (map_of websiteOptions commandKey) of
        None \<Rightarrow> False
      | Some w \<Rightarrow>
          if RefChange_value w = 0 then False
          else
            let bookChanged = (book newRef \<noteq> book oldRef);
                chapterChanged = (chapterNum newRef \<noteq> chapterNum oldRef);
                verseChanged = (verseNum newRef \<noteq> verseNum oldRef)
            in (case w of
                  WatchBookChange \<Rightarrow> bookChanged
                | WatchChapterChange \<Rightarrow> chapterChanged \<or> bookChanged
                | WatchVerseChange \<Rightarrow> chapterChanged \<or> bookChanged \<or> verseChanged
                | DoNotWatch \<Rightarrow> False))"

subsection \<open>Scroll groups\<close>

text \<open>
  \<^verbatim>\<open>ScrollGroupScrRef\<close> is the union \<^verbatim>\<open>ScrollGroupId | SerializedVerseRef\<close>: a scroll
  group number or a reference object. \<^verbatim>\<open>ScrollGroupScrRef | undefined\<close> is its option.
\<close>

datatype ScrollGroupScrRef = ScrollGroupId int | ScrRef SerializedVerseRef

record ScrollGroupInfo =
  scrollGroupScrRef :: "ScrollGroupScrRef option"
  scrRef :: SerializedVerseRef

definition SCR_REF_TO_TRIGGER_UPDATE :: SerializedVerseRef where
  "SCR_REF_TO_TRIGGER_UPDATE =
     \<lparr>book = '''', chapterNum = - 1, verseNum = - 1, verse = None, versificationStr = None\<rparr>"

text \<open>\<^verbatim>\<open>typeof scrollRef === 'object'\<close>\<close>

fun isScrRef :: "ScrollGroupScrRef option \<Rightarrow> bool" where
  "isScrRef (Some (ScrRef r)) = True"
| "isScrRef (Some (ScrollGroupId n)) = False"
| "isScrRef None = False"

text \<open>
  \<^verbatim>\<open>compareScrRefs\<close> belongs to the library platform-bible-utils and is not part of this
  repository; it is the first argument of \<open>hasScrollGroupChanged\<close>. The four tests run
  in the order of the source: both undefined, both numbers, both objects, mixed.
\<close>

definition hasScrollGroupChanged ::
  "(SerializedVerseRef \<Rightarrow> SerializedVerseRef \<Rightarrow> int) \<Rightarrow>
   ScrollGroupScrRef option \<Rightarrow> ScrollGroupScrRef option \<Rightarrow> bool" where
  "hasScrollGroupChanged compareScrRefs oldRef newRef =
     (if oldRef = None \<and> newRef = None then False
      else
        (case (oldRef, newRef) of
           (Some (ScrollGroupId a), Some (ScrollGroupId b)) \<Rightarrow> a \<noteq> b
         | (Some (ScrRef r1), Some (ScrRef r2)) \<Rightarrow>
             if isScrRef oldRef \<and> isScrRef newRef then compareScrRefs r1 r2 \<noteq> 0 else True
         | _ \<Rightarrow> True))"

subsection \<open>The host and the extension's state\<close>

text \<open>
  The services of the host that the code reads: \<^verbatim>\<open>papi.scrollGroups.getScrRef\<close>,
  \<^verbatim>\<open>papi.localization.getLocalizedString\<close>, and the two library functions
  \<^verbatim>\<open>compareScrRefs\<close> and \<^verbatim>\<open>formatReplacementString\<close> (applied to the format string
  and the resource name).
\<close>

record Host =
  scrollGroups_getScrRef :: "int option \<Rightarrow> SerializedVerseRef"
  localization_getLocalizedString :: "string \<Rightarrow> string"
  formatReplacementString :: "string \<Rightarrow> string \<Rightarrow> string"
  compareScrRefs :: "SerializedVerseRef \<Rightarrow> SerializedVerseRef \<Rightarrow> int"

text \<open>
  The module variables \<^verbatim>\<open>websiteOptions\<close>, \<^verbatim>\<open>commandByWebViewId\<close>,
  \<^verbatim>\<open>scrollGroupInfoByWebViewId\<close> and \<^verbatim>\<open>interfaceLanguage\<close>, and the user data that
  \<^verbatim>\<open>papi.storage\<close> keeps for the extension's execution token, a map from key to string.
\<close>

record ExtensionState =
  websiteOptions :: "(string, FaithbridgeOptions) js_map"
  commandByWebViewId :: "(string, string) js_map"
  scrollGroupInfoByWebViewId :: "(string, ScrollGroupInfo) js_map"
  interfaceLanguage :: "string list"
  userData :: "string \<rightharpoonup> string"

record BasicFaithbridgeOptions =
  openWebsiteCommand :: "string option"
  existingId :: "string option"

text \<open>
  \<^verbatim>\<open>SavedWebViewDefinition\<close>: the fields the code reads. \<^verbatim>\<open>WebViewDefinition\<close> extends it,
  as the spread \<^verbatim>\<open>...savedWebView\<close> of the returned object does. The field \<^verbatim>\<open>id\<close> is
  named \<open>webViewId\<close>, and the web view's \<^verbatim>\<open>scrollGroupScrRef\<close> is
  \<open>webViewScrollGroupScrRef\<close>.
\<close>

record SavedWebViewDefinition =
  webViewId :: string
  webViewType :: string
  webViewScrollGroupScrRef :: "ScrollGroupScrRef option"

record WebViewDefinition = SavedWebViewDefinition +
  content :: string
  contentType :: string
  title :: string
  allowScripts :: bool
  allowPopups :: bool
  shouldShowToolbar :: bool

text \<open>
  The update information of \<^verbatim>\<open>onDidUpdateScrRef\<close>; its field \<^verbatim>\<open>scrRef\<close> is
  \<open>updatedScrRef\<close>.
\<close>

record ScrollGroupUpdateInfo =
  scrollGroupId :: int
  updatedScrRef :: SerializedVerseRef

text \<open>
  A call \<^verbatim>\<open>papi.webViews.openWebView(type, undefined, options)\<close>; the layout argument is
  undefined at both call sites.
\<close>

datatype HostCall = OpenWebView string BasicFaithbridgeOptions

text \<open>
  What a rejected promise of \<^verbatim>\<open>getWebView\<close> carries: the error thrown for a foreign
  web view type, with its message, or the rejection of \<^verbatim>\<open>readUserData\<close> for a key that
  holds no data.
\<close>

datatype error = ProviderError string | ReadUserDataRejected string

definition FAITHBRIDGE_WEBVIEW_TYPE :: string where
  "FAITHBRIDGE_WEBVIEW_TYPE = ''faithbridge.webView''"

definition USER_DATA_KEY :: string where
  "USER_DATA_KEY = ''webViewTypeById_''"

text \<open>JavaScript truthiness of a string: every string but the empty one.\<close>

definition truthy :: "string \<Rightarrow> bool" where
  "truthy s = (s \<noteq> [])"

section \<open>Operations\<close>

definition openFaithbridgeByType :: "ExtensionState \<Rightarrow> BasicFaithbridgeOptions \<Rightarrow> HostCall" where
  "openFaithbridgeByType st basicOptions =
     (let webViewOptions =
        \<lparr>openWebsiteCommand = openWebsiteCommand basicOptions,
         existingId =
           map_option fst
             (find (\<lambda>(_, command). Some command = openWebsiteCommand basicOptions)
                (commandByWebViewId st))\<rparr>
      in OpenWebView FAITHBRIDGE_WEBVIEW_TYPE webViewOptions)"

definition reopenFaithbridgeByExistingId :: "string \<Rightarrow> HostCall" where
  "reopenFaithbridgeByExistingId existingWebViewId =
     OpenWebView FAITHBRIDGE_WEBVIEW_TYPE
       \<lparr>openWebsiteCommand = None, existingId = Some existingWebViewId\<rparr>"

text \<open>
  \<^verbatim>\<open>!scrollGroupRef || typeof scrollGroupRef === 'number'\<close> holds for undefined and for
  every number; the host then resolves the scroll group. A reference object is returned
  as it is.
\<close>

fun getCurrentScriptureReference :: "Host \<Rightarrow> ScrollGroupScrRef option \<Rightarrow> SerializedVerseRef" where
  "getCurrentScriptureReference host None = scrollGroups_getScrRef host None"
| "getCurrentScriptureReference host (Some (ScrollGroupId n)) = scrollGroups_getScrRef host (Some n)"
| "getCurrentScriptureReference host (Some (ScrRef r)) = r"

definition getWebViewTitle :: "Host \<Rightarrow> string \<Rightarrow> string \<Rightarrow> string" where
  "getWebViewTitle host titleStringFormat resourceName =
     formatReplacementString host titleStringFormat resourceName"

text \<open>
  The expression of \<^verbatim>\<open>getWebView\<close> that finds the command:
  \<^verbatim>\<open>basicOptions.openWebsiteCommand ?? commandByWebViewId.get(id) ?? (await readUserData(key))\<close>.
  \<^verbatim>\<open>??\<close> passes over undefined only. \<^verbatim>\<open>readUserData\<close> rejects for a key without data.
\<close>

definition getWebView_command ::
  "ExtensionState \<Rightarrow> string \<Rightarrow> string \<Rightarrow> BasicFaithbridgeOptions \<Rightarrow> error + string" where
  "getWebView_command st wvId userDataKey basicOptions =
     (case openWebsiteCommand basicOptions of
        Some c \<Rightarrow> Inr c
      | None \<Rightarrow>
          (case map_of (commandByWebViewId st) wvId of
             Some c \<Rightarrow> Inr c
           | None \<Rightarrow>
               (case userData st userDataKey of
                  Some c \<Rightarrow> Inr c
                | None \<Rightarrow> Inl (ReadUserDataRejected userDataKey))))"

text \<open>
  \<^verbatim>\<open>getWebView\<close>: the pair of what the promise settles to and the state afterwards.
  The statements run in the order of the source, so a rejection of \<^verbatim>\<open>readUserData\<close>
  leaves the scroll group information already stored.
\<close>

definition getWebView ::
  "Host \<Rightarrow> ExtensionState \<Rightarrow> SavedWebViewDefinition \<Rightarrow> BasicFaithbridgeOptions \<Rightarrow>
   (error + WebViewDefinition) \<times> ExtensionState" where
  "getWebView host st savedWebView basicOptions =
     (if webViewType savedWebView \<noteq> FAITHBRIDGE_WEBVIEW_TYPE then
        (Inl (ProviderError
           (FAITHBRIDGE_WEBVIEW_TYPE @ '' provider received request to provide a '' @
            webViewType savedWebView @ '' web view'')), st)
      else
        let currentScriptureReference =
              getCurrentScriptureReference host (webViewScrollGroupScrRef savedWebView);
            st1 = st\<lparr>scrollGroupInfoByWebViewId :=
                    AList.update (webViewId savedWebView)
                      \<lparr>scrollGroupScrRef = webViewScrollGroupScrRef savedWebView,
                       scrRef = currentScriptureReference\<rparr>
                      (scrollGroupInfoByWebViewId st)\<rparr>;
            userDataKey = USER_DATA_KEY @ webViewId savedWebView;
            st2 = (case openWebsiteCommand basicOptions of
                     Some c \<Rightarrow>
                       if truthy c then
                         st1\<lparr>commandByWebViewId :=
                               AList.update (webViewId savedWebView) c (commandByWebViewId st1),
                             userData := (userData st1)(userDataKey \<mapsto> c)\<rparr>
                       else st1
                   | None \<Rightarrow> st1)
        in (case getWebView_command st2 (webViewId savedWebView) userDataKey basicOptions of
              Inl e \<Rightarrow> (Inl e, st2)
            | Inr command \<Rightarrow>
                let st3 = (if (case map_of (commandByWebViewId st2) (webViewId savedWebView) of
                                 None \<Rightarrow> True
                               | Some c \<Rightarrow> \<not> truthy c)
                           then st2\<lparr>commandByWebViewId :=
                                  AList.update (webViewId savedWebView) command
                                    (commandByWebViewId st2)\<rparr>
                           else st2);
                    options = (case map_of (websiteOptions st3) command of
                                 Some opts \<Rightarrow> opts
                               | None \<Rightarrow> DEFAULT_FAITHBRIDGE_OPTIONS);
                    url = getUrl options currentScriptureReference (interfaceLanguage st3);
                    titleFormatString =
                      localization_getLocalizedString host ''%faithbridge_title_format%''
                in (Inr (SavedWebViewDefinition.extend savedWebView
                      (WebViewDefinition.fields url ''url''
                         (getWebViewTitle host titleFormatString (websiteName options))
                         True True (watchRefChange options \<noteq> DoNotWatch))), st3)))"

text \<open>
  \<^verbatim>\<open>registerOpenWebsiteCommandHandlers\<close> stores the configuration and registers, for each
  of its entries, the command with a handler that opens the web view for that command. A
  registration is the pair of the command name and the handler.
\<close>

definition registerOpenWebsiteCommandHandlers ::
  "ExtensionState \<Rightarrow> (string \<times> (ExtensionState \<Rightarrow> HostCall)) list \<times> ExtensionState" where
  "registerOpenWebsiteCommandHandlers st =
     (let st' = st\<lparr>websiteOptions := getWebsiteOptions\<rparr>
      in (map (\<lambda>(command, options).
                 (command,
                  \<lambda>s. openFaithbridgeByType s \<lparr>openWebsiteCommand = Some command, existingId = None\<rparr>))
            (websiteOptions st'), st'))"

subsection \<open>Event handlers of \<^verbatim>\<open>activate\<close>\<close>

text \<open>
  Each handler returns the calls of \<^verbatim>\<open>openWebView\<close> it makes, in order; the handler of
  the close event returns the state afterwards.
\<close>

definition onDidUpdateScrRef :: "ExtensionState \<Rightarrow> ScrollGroupUpdateInfo \<Rightarrow> HostCall list" where
  "onDidUpdateScrRef st scrollGroupUpdateInfo =
     map (\<lambda>(wvId, _). reopenFaithbridgeByExistingId wvId)
       (filter (\<lambda>(wvId, commandKey).
            shouldUpdateOnScriptureRefChange (websiteOptions st) commandKey
              (case map_of (scrollGroupInfoByWebViewId st) wvId of
                 Some info \<Rightarrow> scrRef info
               | None \<Rightarrow> SCR_REF_TO_TRIGGER_UPDATE)
              (updatedScrRef scrollGroupUpdateInfo))
          (commandByWebViewId st))"

definition onDidUpdateWebView ::
  "Host \<Rightarrow> ExtensionState \<Rightarrow> SavedWebViewDefinition \<Rightarrow> HostCall list" where
  "onDidUpdateWebView host st webView =
     (case map_of (commandByWebViewId st) (webViewId webView) of
        None \<Rightarrow> []
      | Some command \<Rightarrow>
          if \<not> truthy command then []
          else
            let options = (case map_of (websiteOptions st) command of
                             Some opts \<Rightarrow> opts
                           | None \<Rightarrow> DEFAULT_FAITHBRIDGE_OPTIONS)
            in if watchRefChange options = DoNotWatch then []
               else
                 let oldScrollGroupInfo = map_of (scrollGroupInfoByWebViewId st) (webViewId webView);
                     newScrollRef = webViewScrollGroupScrRef webView;
                     refChanged =
                       hasScrollGroupChanged (compareScrRefs host)
                         (case oldScrollGroupInfo of
                            Some info \<Rightarrow> scrollGroupScrRef info
                          | None \<Rightarrow> None)
                         newScrollRef;
                     shouldUpdate =
                       (\<not> isScrRef newScrollRef \<or>
                        (case newScrollRef of
                           Some (ScrRef r) \<Rightarrow>
                             shouldUpdateOnScriptureRefChange (websiteOptions st) command
                               (case oldScrollGroupInfo of
                                  Some info \<Rightarrow> scrRef info
                                | None \<Rightarrow> SCR_REF_TO_TRIGGER_UPDATE)
                               r
                         | _ \<Rightarrow> False))
                 in if refChanged \<and> shouldUpdate
                    then [reopenFaithbridgeByExistingId (webViewId webView)]
                    else [])"

definition onDidCloseWebView :: "ExtensionState \<Rightarrow> SavedWebViewDefinition \<Rightarrow> ExtensionState" where
  "onDidCloseWebView st webView =
     (let wvId = webViewId webView
      in if map_of (commandByWebViewId st) wvId \<noteq> None then
           let userDataKey = USER_DATA_KEY @ wvId
           in st\<lparr>commandByWebViewId := AList.delete wvId (commandByWebViewId st),
                scrollGroupInfoByWebViewId := AList.delete wvId (scrollGroupInfoByWebViewId st),
                userData := (userData st)(userDataKey := None)\<rparr>
         else st)"

section \<open>Concrete inputs\<close>

text \<open>
  A configuration with one command for each level of the policy, a host, and a state
  with two open web views and three persisted records.
\<close>

definition ref_GEN_1_1 :: SerializedVerseRef where
  "ref_GEN_1_1 =
     \<lparr>book = ''GEN'', chapterNum = 1, verseNum = 1, verse = None, versificationStr = None\<rparr>"

definition ref_GEN_1_2 :: SerializedVerseRef where
  "ref_GEN_1_2 =
     \<lparr>book = ''GEN'', chapterNum = 1, verseNum = 2, verse = None, versificationStr = None\<rparr>"

definition ref_GEN_2_1 :: SerializedVerseRef where
  "ref_GEN_2_1 =
     \<lparr>book = ''GEN'', chapterNum = 2, verseNum = 1, verse = None, versificationStr = None\<rparr>"

definition ref_EXO_1_1 :: SerializedVerseRef where
  "ref_EXO_1_1 =
     \<lparr>book = ''EXO'', chapterNum = 1, verseNum = 1, verse = None, versificationStr = None\<rparr>"

definition sample_options :: "RefChange \<Rightarrow> FaithbridgeOptions" where
  "sample_options w =
     \<lparr>getUrl = (\<lambda>r l. ''https://example.org/'' @ concat l @ ''/'' @ book r),
      websiteName = ''Sample'',
      watchRefChange = w\<rparr>"

definition sample_config :: "(string, FaithbridgeOptions) js_map" where
  "sample_config =
     [(''x.book'', sample_options WatchBookChange),
      (''x.chapter'', sample_options WatchChapterChange),
      (''x.verse'', sample_options WatchVerseChange),
      (''x.none'', sample_options DoNotWatch)]"

definition sample_host :: Host where
  "sample_host =
     \<lparr>scrollGroups_getScrRef = (\<lambda>g. if g = Some 1 then ref_EXO_1_1 else ref_GEN_1_1),
      localization_getLocalizedString = (\<lambda>k. ''Site: {resourceName}''),
      formatReplacementString = (\<lambda>f n. f @ n),
      compareScrRefs =
        (\<lambda>a b. (chapterNum a * 1000 + verseNum a) - (chapterNum b * 1000 + verseNum b))\<rparr>"

definition sample_state :: ExtensionState where
  "sample_state =
     \<lparr>websiteOptions = sample_config,
      commandByWebViewId = [(''wv1'', ''x.none''), (''wv2'', ''x.verse'')],
      scrollGroupInfoByWebViewId =
        [(''wv1'', \<lparr>scrollGroupScrRef = Some (ScrollGroupId 0), scrRef = ref_GEN_1_1\<rparr>),
         (''wv2'', \<lparr>scrollGroupScrRef = Some (ScrollGroupId 0), scrRef = ref_GEN_1_1\<rparr>)],
      interfaceLanguage = [''en''],
      userData =
        [''webViewTypeById_wv1'' \<mapsto> ''x.none'',
         ''webViewTypeById_wv2'' \<mapsto> ''x.verse'',
         ''webViewTypeById_wv3'' \<mapsto> ''x.book'']\<rparr>"

definition sample_webView :: "string \<Rightarrow> ScrollGroupScrRef option \<Rightarrow> SavedWebViewDefinition" where
  "sample_webView i r =
     \<lparr>webViewId = i, webViewType = ''faithbridge.webView'', webViewScrollGroupScrRef = r\<rparr>"

section \<open>Auxiliary facts\<close>

lemma sample_webView_type: "webViewType (sample_webView i r) = FAITHBRIDGE_WEBVIEW_TYPE"
  by (simp add: sample_webView_def FAITHBRIDGE_WEBVIEW_TYPE_def)

lemma sample_webView_id: "webViewId (sample_webView i r) = i"
  by (simp add: sample_webView_def)

lemma sample_state_keys_distinct: "distinct (map fst (commandByWebViewId sample_state))"
  by (simp add: sample_state_def)

text \<open>The reverse lookup of \<^verbatim>\<open>openFaithbridgeByType\<close>: what \<^verbatim>\<open>find\<close> returns.\<close>

lemma find_command_Some:
  "find (\<lambda>(_, command). Some command = oc) al = Some e \<Longrightarrow> e \<in> set al \<and> Some (snd e) = oc"
  by (induction al) (auto split: if_splits)

lemma find_command_None:
  "find (\<lambda>(_, command). Some command = oc) al = None \<longleftrightarrow> (\<forall>e \<in> set al. Some (snd e) \<noteq> oc)"
  by (induction al) (auto split: if_splits)

text \<open>
  The keys of \<^verbatim>\<open>commandByWebViewId\<close> stay distinct under every operation that writes
  the map, so each entry of the list is what \<^verbatim>\<open>get\<close> returns for its key.
\<close>

lemma getWebView_keys_distinct:
  assumes "distinct (map fst (commandByWebViewId st))"
  shows "distinct (map fst (commandByWebViewId (snd (getWebView host st savedWebView basicOptions))))"
  using assms
  by (auto simp: getWebView_def Let_def AList.distinct_update
        split: option.splits sum.splits)

lemma onDidCloseWebView_keys_distinct:
  assumes "distinct (map fst (commandByWebViewId st))"
  shows "distinct (map fst (commandByWebViewId (onDidCloseWebView st webView)))"
  using assms by (simp add: onDidCloseWebView_def Let_def AList.distinct_delete)

text \<open>Closing keeps the other entries in their order.\<close>

lemma delete_as_filter: "AList.delete k al = filter (\<lambda>e. fst e \<noteq> k) al"
  by (induction al) (auto simp: AList.delete_eq)

lemma onDidCloseWebView_entries:
  assumes "map_of (commandByWebViewId st) (webViewId webView) \<noteq> None"
  shows "commandByWebViewId (onDidCloseWebView st webView) =
           filter (\<lambda>e. fst e \<noteq> webViewId webView) (commandByWebViewId st)"
    and "scrollGroupInfoByWebViewId (onDidCloseWebView st webView) =
           filter (\<lambda>e. fst e \<noteq> webViewId webView) (scrollGroupInfoByWebViewId st)"
  using assms by (simp_all add: onDidCloseWebView_def Let_def delete_as_filter)

text \<open>
  What \<^verbatim>\<open>getWebView\<close> computes on the way, in terms of its inputs: the current reference
  comes from the host for undefined and for a scroll group number and is the object
  itself otherwise; the command comes from the options, else from the in-memory map, else
  from the record in the user data.
\<close>

lemma getCurrentScriptureReference_resolved:
  "(sgr = None \<and> getCurrentScriptureReference host sgr = scrollGroups_getScrRef host None) \<or>
   (\<exists>n. sgr = Some (ScrollGroupId n) \<and>
      getCurrentScriptureReference host sgr = scrollGroups_getScrRef host (Some n)) \<or>
   (\<exists>r. sgr = Some (ScrRef r) \<and> getCurrentScriptureReference host sgr = r)"
proof (cases sgr)
  case None
  then show ?thesis by simp
next
  case (Some x)
  then show ?thesis by (cases x) simp_all
qed

lemma getWebView_command_found:
  "getWebView_command st i (USER_DATA_KEY @ i) basicOptions = Inr c \<longleftrightarrow>
     openWebsiteCommand basicOptions = Some c \<or>
     openWebsiteCommand basicOptions = None \<and> map_of (commandByWebViewId st) i = Some c \<or>
     openWebsiteCommand basicOptions = None \<and> map_of (commandByWebViewId st) i = None \<and>
       userData st (''webViewTypeById_'' @ i) = Some c"
  by (auto simp: getWebView_command_def USER_DATA_KEY_def split: option.splits)

lemma getWebView_command_scrollGroupInfo:
  "getWebView_command (st\<lparr>scrollGroupInfoByWebViewId := x\<rparr>) i k basicOptions =
     getWebView_command st i k basicOptions"
  by (simp add: getWebView_command_def split: option.splits)

text \<open>The definition a successful \<^verbatim>\<open>getWebView\<close> returns, field by field.\<close>

lemma getWebView_returned_definition:
  assumes "webViewType savedWebView = FAITHBRIDGE_WEBVIEW_TYPE"
    and "getWebView_command st (webViewId savedWebView)
           (USER_DATA_KEY @ webViewId savedWebView) basicOptions = Inr command"
  shows "\<exists>wv st'. getWebView host st savedWebView basicOptions = (Inr wv, st') \<and>
           contentType wv = ''url'' \<and>
           content wv =
             getUrl (case map_of (websiteOptions st) command of
                       Some opts \<Rightarrow> opts
                     | None \<Rightarrow> DEFAULT_FAITHBRIDGE_OPTIONS)
               (getCurrentScriptureReference host (webViewScrollGroupScrRef savedWebView))
               (interfaceLanguage st) \<and>
           title wv =
             formatReplacementString host
               (localization_getLocalizedString host ''%faithbridge_title_format%'')
               (websiteName (case map_of (websiteOptions st) command of
                               Some opts \<Rightarrow> opts
                             | None \<Rightarrow> DEFAULT_FAITHBRIDGE_OPTIONS)) \<and>
           shouldShowToolbar wv =
             (watchRefChange (case map_of (websiteOptions st) command of
                                Some opts \<Rightarrow> opts
                              | None \<Rightarrow> DEFAULT_FAITHBRIDGE_OPTIONS) \<noteq> DoNotWatch)"
  using assms
  by (auto simp: getWebView_def Let_def getWebView_command_def WebViewDefinition.defs
        SavedWebViewDefinition.defs getWebViewTitle_def
        split: option.splits sum.splits if_splits)

lemma getWebView_returns_only_with_command:
  assumes "webViewType savedWebView = FAITHBRIDGE_WEBVIEW_TYPE"
    and "getWebView host st savedWebView basicOptions = (Inr wv, st')"
  shows "\<exists>command. getWebView_command st (webViewId savedWebView)
           (USER_DATA_KEY @ webViewId savedWebView) basicOptions = Inr command"
  using assms
  by (auto simp: getWebView_def Let_def getWebView_command_def
        split: option.splits sum.splits if_splits)

section \<open>The reload decision\<close>

text \<open>
  C1. For every command key and every pair of references the decision is the three-level
  table: no configuration entry or \<open>DoNotWatch\<close> gives false; \<open>WatchBookChange\<close> gives
  true exactly when the book differs; \<open>WatchChapterChange\<close> exactly when the book or the
  chapter number differs; \<open>WatchVerseChange\<close> exactly when the book, the chapter number or
  the verse number differs.
\<close>

theorem shouldUpdate_granularity_policy:
  "(map_of config commandKey = None \<longrightarrow>
      \<not> shouldUpdateOnScriptureRefChange config commandKey oldRef newRef) \<and>
   (\<forall>opts. map_of config commandKey = Some opts \<longrightarrow>
      (watchRefChange opts = DoNotWatch \<longrightarrow>
         \<not> shouldUpdateOnScriptureRefChange config commandKey oldRef newRef) \<and>
      (watchRefChange opts = WatchBookChange \<longrightarrow>
         shouldUpdateOnScriptureRefChange config commandKey oldRef newRef =
           (book newRef \<noteq> book oldRef)) \<and>
      (watchRefChange opts = WatchChapterChange \<longrightarrow>
         shouldUpdateOnScriptureRefChange config commandKey oldRef newRef =
           (book newRef \<noteq> book oldRef \<or> chapterNum newRef \<noteq> chapterNum oldRef)) \<and>
      (watchRefChange opts = WatchVerseChange \<longrightarrow>
         shouldUpdateOnScriptureRefChange config commandKey oldRef newRef =
           (book newRef \<noteq> book oldRef \<or> chapterNum newRef \<noteq> chapterNum oldRef \<or>
            verseNum newRef \<noteq> verseNum oldRef)))"
  by (auto simp: shouldUpdateOnScriptureRefChange_def Let_def)

theorem shouldUpdate_granularity_policy_witness:
  "\<not> shouldUpdateOnScriptureRefChange sample_config ''x.unknown'' ref_GEN_1_1 ref_EXO_1_1 \<and>
   \<not> shouldUpdateOnScriptureRefChange sample_config ''x.none'' ref_GEN_1_1 ref_EXO_1_1 \<and>
   shouldUpdateOnScriptureRefChange sample_config ''x.book'' ref_GEN_1_1 ref_EXO_1_1 \<and>
   \<not> shouldUpdateOnScriptureRefChange sample_config ''x.book'' ref_GEN_1_1 ref_GEN_2_1 \<and>
   shouldUpdateOnScriptureRefChange sample_config ''x.chapter'' ref_GEN_1_1 ref_GEN_2_1 \<and>
   \<not> shouldUpdateOnScriptureRefChange sample_config ''x.chapter'' ref_GEN_1_1 ref_GEN_1_2 \<and>
   shouldUpdateOnScriptureRefChange sample_config ''x.verse'' ref_GEN_1_1 ref_GEN_1_2 \<and>
   \<not> shouldUpdateOnScriptureRefChange sample_config ''x.verse'' ref_GEN_1_1 ref_GEN_1_1"
  using shouldUpdate_granularity_policy [of sample_config "''x.unknown''" ref_GEN_1_1 ref_EXO_1_1]
    shouldUpdate_granularity_policy [of sample_config "''x.none''" ref_GEN_1_1 ref_EXO_1_1]
    shouldUpdate_granularity_policy [of sample_config "''x.book''" ref_GEN_1_1 ref_EXO_1_1]
    shouldUpdate_granularity_policy [of sample_config "''x.book''" ref_GEN_1_1 ref_GEN_2_1]
    shouldUpdate_granularity_policy [of sample_config "''x.chapter''" ref_GEN_1_1 ref_GEN_2_1]
    shouldUpdate_granularity_policy [of sample_config "''x.chapter''" ref_GEN_1_1 ref_GEN_1_2]
    shouldUpdate_granularity_policy [of sample_config "''x.verse''" ref_GEN_1_1 ref_GEN_1_2]
    shouldUpdate_granularity_policy [of sample_config "''x.verse''" ref_GEN_1_1 ref_GEN_1_1]
  by (simp add: sample_config_def sample_options_def ref_GEN_1_1_def ref_GEN_1_2_def
        ref_GEN_2_1_def ref_EXO_1_1_def)

section \<open>The web view provider\<close>

text \<open>
  C2. For a saved web view of the faithbridge type, every web view definition that
  \<^verbatim>\<open>getWebView\<close> returns has content type \<open>url\<close>. Its content is the URL builder of the
  options of the command, applied to the current scripture reference and the interface
  language, where
  \<^item> the command is the one in the request's options, else the one the in-memory map holds
    for the view id, else the one recorded in the user data under \<open>webViewTypeById_\<close>
    followed by the view id;
  \<^item> the reference is what the host gives for the scroll group (or for no scroll group),
    or the reference object of the web view itself;
  \<^item> the options are the entry of \<^verbatim>\<open>websiteOptions\<close> for the command, or the default
    options, whose builder gives the empty string, when the command has no entry.
  A definition is returned whenever such a command exists.
\<close>

theorem getWebView_content_is_site_url:
  assumes "webViewType savedWebView = FAITHBRIDGE_WEBVIEW_TYPE"
  shows "(\<forall>wv st'. getWebView host st savedWebView basicOptions = (Inr wv, st') \<longrightarrow>
            contentType wv = ''url'' \<and>
            (\<exists>command reference.
               (openWebsiteCommand basicOptions = Some command \<or>
                openWebsiteCommand basicOptions = None \<and>
                  map_of (commandByWebViewId st) (webViewId savedWebView) = Some command \<or>
                openWebsiteCommand basicOptions = None \<and>
                  map_of (commandByWebViewId st) (webViewId savedWebView) = None \<and>
                  userData st (''webViewTypeById_'' @ webViewId savedWebView) = Some command) \<and>
               (webViewScrollGroupScrRef savedWebView = None \<and>
                  reference = scrollGroups_getScrRef host None \<or>
                (\<exists>n. webViewScrollGroupScrRef savedWebView = Some (ScrollGroupId n) \<and>
                   reference = scrollGroups_getScrRef host (Some n)) \<or>
                webViewScrollGroupScrRef savedWebView = Some (ScrRef reference)) \<and>
               ((\<exists>opts. map_of (websiteOptions st) command = Some opts \<and>
                   content wv = getUrl opts reference (interfaceLanguage st)) \<or>
                map_of (websiteOptions st) command = None \<and>
                  content wv =
                    getUrl DEFAULT_FAITHBRIDGE_OPTIONS reference (interfaceLanguage st) \<and>
                  content wv = ''''))) \<and>
         (\<forall>command.
            openWebsiteCommand basicOptions = Some command \<or>
            openWebsiteCommand basicOptions = None \<and>
              map_of (commandByWebViewId st) (webViewId savedWebView) = Some command \<or>
            openWebsiteCommand basicOptions = None \<and>
              map_of (commandByWebViewId st) (webViewId savedWebView) = None \<and>
              userData st (''webViewTypeById_'' @ webViewId savedWebView) = Some command \<longrightarrow>
            (\<exists>wv st'. getWebView host st savedWebView basicOptions = (Inr wv, st')))"
proof (intro conjI allI impI)
  fix command
  assume "openWebsiteCommand basicOptions = Some command \<or>
      openWebsiteCommand basicOptions = None \<and>
        map_of (commandByWebViewId st) (webViewId savedWebView) = Some command \<or>
      openWebsiteCommand basicOptions = None \<and>
        map_of (commandByWebViewId st) (webViewId savedWebView) = None \<and>
        userData st (''webViewTypeById_'' @ webViewId savedWebView) = Some command"
  then have "getWebView_command st (webViewId savedWebView)
      (USER_DATA_KEY @ webViewId savedWebView) basicOptions = Inr command"
    by (simp only: getWebView_command_found)
  from getWebView_returned_definition [OF assms this, of host]
  show "\<exists>wv st'. getWebView host st savedWebView basicOptions = (Inr wv, st')"
    by blast
next
  fix wv st'
  assume r: "getWebView host st savedWebView basicOptions = (Inr wv, st')"
  from getWebView_returns_only_with_command [OF assms r]
  obtain command where c: "getWebView_command st (webViewId savedWebView)
      (USER_DATA_KEY @ webViewId savedWebView) basicOptions = Inr command"
    by blast
  from getWebView_returned_definition [OF assms c, of host] r
  have d: "contentType wv = ''url''"
    "content wv =
       getUrl (case map_of (websiteOptions st) command of
                 Some opts \<Rightarrow> opts
               | None \<Rightarrow> DEFAULT_FAITHBRIDGE_OPTIONS)
         (getCurrentScriptureReference host (webViewScrollGroupScrRef savedWebView))
         (interfaceLanguage st)"
    by auto
  show "contentType wv = ''url''" by (rule d(1))
  let ?reference = "getCurrentScriptureReference host (webViewScrollGroupScrRef savedWebView)"
  have found: "openWebsiteCommand basicOptions = Some command \<or>
      openWebsiteCommand basicOptions = None \<and>
        map_of (commandByWebViewId st) (webViewId savedWebView) = Some command \<or>
      openWebsiteCommand basicOptions = None \<and>
        map_of (commandByWebViewId st) (webViewId savedWebView) = None \<and>
        userData st (''webViewTypeById_'' @ webViewId savedWebView) = Some command"
    using c by (simp only: getWebView_command_found)
  have resolved: "webViewScrollGroupScrRef savedWebView = None \<and>
        ?reference = scrollGroups_getScrRef host None \<or>
      (\<exists>n. webViewScrollGroupScrRef savedWebView = Some (ScrollGroupId n) \<and>
         ?reference = scrollGroups_getScrRef host (Some n)) \<or>
      webViewScrollGroupScrRef savedWebView = Some (ScrRef ?reference)"
    using getCurrentScriptureReference_resolved [of "webViewScrollGroupScrRef savedWebView" host]
    by auto
  have built: "(\<exists>opts. map_of (websiteOptions st) command = Some opts \<and>
         content wv = getUrl opts ?reference (interfaceLanguage st)) \<or>
      map_of (websiteOptions st) command = None \<and>
        content wv = getUrl DEFAULT_FAITHBRIDGE_OPTIONS ?reference (interfaceLanguage st) \<and>
        content wv = ''''"
    using d(2) by (cases "map_of (websiteOptions st) command")
      (simp_all add: DEFAULT_FAITHBRIDGE_OPTIONS_def)
  from found resolved built
  show "\<exists>command reference.
      (openWebsiteCommand basicOptions = Some command \<or>
       openWebsiteCommand basicOptions = None \<and>
         map_of (commandByWebViewId st) (webViewId savedWebView) = Some command \<or>
       openWebsiteCommand basicOptions = None \<and>
         map_of (commandByWebViewId st) (webViewId savedWebView) = None \<and>
         userData st (''webViewTypeById_'' @ webViewId savedWebView) = Some command) \<and>
      (webViewScrollGroupScrRef savedWebView = None \<and>
         reference = scrollGroups_getScrRef host None \<or>
       (\<exists>n. webViewScrollGroupScrRef savedWebView = Some (ScrollGroupId n) \<and>
          reference = scrollGroups_getScrRef host (Some n)) \<or>
       webViewScrollGroupScrRef savedWebView = Some (ScrRef reference)) \<and>
      ((\<exists>opts. map_of (websiteOptions st) command = Some opts \<and>
          content wv = getUrl opts reference (interfaceLanguage st)) \<or>
       map_of (websiteOptions st) command = None \<and>
         content wv = getUrl DEFAULT_FAITHBRIDGE_OPTIONS reference (interfaceLanguage st) \<and>
         content wv = '''')"
    by (intro exI [of _ command] exI [of _ ?reference] conjI)
qed

theorem getWebView_content_is_site_url_witness:
  "(\<exists>wv st'.
      getWebView sample_host sample_state (sample_webView ''wv2'' (Some (ScrollGroupId 1)))
        \<lparr>openWebsiteCommand = None, existingId = Some ''wv2''\<rparr> = (Inr wv, st') \<and>
      contentType wv = ''url'' \<and> content wv = ''https://example.org/en/EXO'') \<and>
   (\<exists>wv st'.
      getWebView sample_host sample_state (sample_webView ''wv3'' None)
        \<lparr>openWebsiteCommand = None, existingId = Some ''wv3''\<rparr> = (Inr wv, st') \<and>
      contentType wv = ''url'' \<and> content wv = ''https://example.org/en/GEN'') \<and>
   (\<exists>wv st'.
      getWebView sample_host sample_state (sample_webView ''wv4'' (Some (ScrRef ref_EXO_1_1)))
        \<lparr>openWebsiteCommand = Some ''x.chapter'', existingId = None\<rparr> = (Inr wv, st') \<and>
      contentType wv = ''url'' \<and> content wv = ''https://example.org/en/EXO'')"
proof (intro conjI)
  let ?sv = "sample_webView ''wv2'' (Some (ScrollGroupId 1))"
  let ?bo = "\<lparr>openWebsiteCommand = None, existingId = Some ''wv2''\<rparr>"
  note site_url = getWebView_content_is_site_url [OF sample_webView_type,
      of sample_host sample_state "''wv2''" "Some (ScrollGroupId 1)" ?bo]
  have "map_of (commandByWebViewId sample_state) (webViewId ?sv) = Some ''x.verse''"
    by (simp add: sample_state_def sample_webView_def)
  with site_url obtain wv st' where
    r: "getWebView sample_host sample_state ?sv ?bo = (Inr wv, st')"
    by auto
  with site_url
  have "contentType wv = ''url'' \<and> content wv = ''https://example.org/en/EXO''"
    by (auto simp: sample_state_def sample_config_def sample_options_def sample_host_def
          ref_EXO_1_1_def sample_webView_def)
  with r show "\<exists>wv st'. getWebView sample_host sample_state ?sv ?bo = (Inr wv, st') \<and>
      contentType wv = ''url'' \<and> content wv = ''https://example.org/en/EXO''"
    by blast
next
  let ?sv = "sample_webView ''wv3'' None"
  let ?bo = "\<lparr>openWebsiteCommand = None, existingId = Some ''wv3''\<rparr>"
  note site_url = getWebView_content_is_site_url [OF sample_webView_type,
      of sample_host sample_state "''wv3''" None ?bo]
  have "map_of (commandByWebViewId sample_state) (webViewId ?sv) = None"
    "userData sample_state (''webViewTypeById_'' @ webViewId ?sv) = Some ''x.book''"
    by (simp_all add: sample_state_def sample_webView_def)
  with site_url obtain wv st' where
    r: "getWebView sample_host sample_state ?sv ?bo = (Inr wv, st')"
    by auto
  with site_url
  have "contentType wv = ''url'' \<and> content wv = ''https://example.org/en/GEN''"
    by (auto simp: sample_state_def sample_config_def sample_options_def sample_host_def
          ref_GEN_1_1_def sample_webView_def)
  with r show "\<exists>wv st'. getWebView sample_host sample_state ?sv ?bo = (Inr wv, st') \<and>
      contentType wv = ''url'' \<and> content wv = ''https://example.org/en/GEN''"
    by blast
next
  let ?sv = "sample_webView ''wv4'' (Some (ScrRef ref_EXO_1_1))"
  let ?bo = "\<lparr>openWebsiteCommand = Some ''x.chapter'', existingId = None\<rparr>"
  note site_url = getWebView_content_is_site_url [OF sample_webView_type,
      of sample_host sample_state "''wv4''" "Some (ScrRef ref_EXO_1_1)" ?bo]
  from site_url obtain wv st' where
    r: "getWebView sample_host sample_state ?sv ?bo = (Inr wv, st')"
    by auto
  with site_url
  have "contentType wv = ''url'' \<and> content wv = ''https://example.org/en/EXO''"
    by (auto simp: sample_state_def sample_config_def sample_options_def sample_host_def
          ref_EXO_1_1_def sample_webView_def)
  with r show "\<exists>wv st'. getWebView sample_host sample_state ?sv ?bo = (Inr wv, st') \<and>
      contentType wv = ''url'' \<and> content wv = ''https://example.org/en/EXO''"
    by blast
qed

text \<open>
  C3, as the code has it. The claim as worded fails at two requests: one of a foreign
  web view type that carries a command is rejected and writes nothing, and one without a
  command, for an untracked view id with no record in the user data, is rejected by the
  read and reinstates nothing.
\<close>

theorem getWebView_persist_restore_counterexample:
  "userData (snd (getWebView sample_host sample_state
       \<lparr>webViewId = ''wv7'', webViewType = ''other.webView'', webViewScrollGroupScrRef = None\<rparr>
       \<lparr>openWebsiteCommand = Some ''x.verse'', existingId = None\<rparr>))
     ''webViewTypeById_wv7'' = None \<and>
   map_of (commandByWebViewId sample_state) ''wv6'' = None \<and>
   fst (getWebView sample_host sample_state
       \<lparr>webViewId = ''wv6'', webViewType = ''faithbridge.webView'', webViewScrollGroupScrRef = None\<rparr>
       \<lparr>openWebsiteCommand = None, existingId = Some ''wv6''\<rparr>) =
     Inl (ReadUserDataRejected ''webViewTypeById_wv6'') \<and>
   map_of (commandByWebViewId (snd (getWebView sample_host sample_state
       \<lparr>webViewId = ''wv6'', webViewType = ''faithbridge.webView'', webViewScrollGroupScrRef = None\<rparr>
       \<lparr>openWebsiteCommand = None, existingId = Some ''wv6''\<rparr>))) ''wv6'' = None"
  by (simp add: getWebView_def getWebView_command_def Let_def FAITHBRIDGE_WEBVIEW_TYPE_def
        USER_DATA_KEY_def sample_state_def)

text \<open>
  C3. For a saved web view of the faithbridge type: a call that carries a command (a
  non-empty string, as every command key is) writes it to the user data under
  \<open>webViewTypeById_\<close> followed by the view id, and records it in the in-memory map. A call
  without a command, for a view id absent from the in-memory map, whose record exists
  under that key, puts the recorded command into the in-memory map, leaves the user data
  as it was, and returns the web view built from the options looked up for that command:
  toolbar, title and content are those of the command's entry, or of the default options
  when it has none.
\<close>

theorem getWebView_persists_and_restores_command:
  assumes "webViewType savedWebView = FAITHBRIDGE_WEBVIEW_TYPE"
  shows "(\<forall>c. openWebsiteCommand basicOptions = Some c \<and> c \<noteq> '''' \<longrightarrow>
            userData (snd (getWebView host st savedWebView basicOptions))
              (''webViewTypeById_'' @ webViewId savedWebView) = Some c \<and>
            map_of (commandByWebViewId (snd (getWebView host st savedWebView basicOptions)))
              (webViewId savedWebView) = Some c) \<and>
         (\<forall>c. openWebsiteCommand basicOptions = None \<and>
              map_of (commandByWebViewId st) (webViewId savedWebView) = None \<and>
              userData st (''webViewTypeById_'' @ webViewId savedWebView) = Some c \<longrightarrow>
            map_of (commandByWebViewId (snd (getWebView host st savedWebView basicOptions)))
              (webViewId savedWebView) = Some c \<and>
            userData (snd (getWebView host st savedWebView basicOptions)) = userData st \<and>
            (\<exists>wv. fst (getWebView host st savedWebView basicOptions) = Inr wv \<and>
               ((\<exists>opts. map_of (websiteOptions st) c = Some opts \<and>
                   shouldShowToolbar wv = (watchRefChange opts \<noteq> DoNotWatch) \<and>
                   title wv =
                     formatReplacementString host
                       (localization_getLocalizedString host ''%faithbridge_title_format%'')
                       (websiteName opts) \<and>
                   (\<exists>reference.
                      (webViewScrollGroupScrRef savedWebView = None \<and>
                         reference = scrollGroups_getScrRef host None \<or>
                       (\<exists>n. webViewScrollGroupScrRef savedWebView = Some (ScrollGroupId n) \<and>
                          reference = scrollGroups_getScrRef host (Some n)) \<or>
                       webViewScrollGroupScrRef savedWebView = Some (ScrRef reference)) \<and>
                      content wv = getUrl opts reference (interfaceLanguage st))) \<or>
                map_of (websiteOptions st) c = None \<and>
                  \<not> shouldShowToolbar wv \<and> content wv = '''')))"
proof (intro conjI allI impI)
  fix c
  assume "openWebsiteCommand basicOptions = Some c \<and> c \<noteq> ''''"
  with assms
  show "userData (snd (getWebView host st savedWebView basicOptions))
      (''webViewTypeById_'' @ webViewId savedWebView) = Some c"
    and "map_of (commandByWebViewId (snd (getWebView host st savedWebView basicOptions)))
      (webViewId savedWebView) = Some c"
    by (simp_all add: getWebView_def Let_def getWebView_command_def truthy_def
          USER_DATA_KEY_def AList.update_conv')
next
  fix c
  assume h: "openWebsiteCommand basicOptions = None \<and>
      map_of (commandByWebViewId st) (webViewId savedWebView) = None \<and>
      userData st (''webViewTypeById_'' @ webViewId savedWebView) = Some c"
  with assms
  show "map_of (commandByWebViewId (snd (getWebView host st savedWebView basicOptions)))
      (webViewId savedWebView) = Some c"
    and "userData (snd (getWebView host st savedWebView basicOptions)) = userData st"
    by (simp_all add: getWebView_def Let_def getWebView_command_def
          USER_DATA_KEY_def AList.update_conv')
  from h have c: "getWebView_command st (webViewId savedWebView)
      (USER_DATA_KEY @ webViewId savedWebView) basicOptions = Inr c"
    by (simp only: getWebView_command_found) simp
  let ?reference = "getCurrentScriptureReference host (webViewScrollGroupScrRef savedWebView)"
  from getWebView_returned_definition [OF assms c, of host]
  obtain wv st' where r: "getWebView host st savedWebView basicOptions = (Inr wv, st')"
    and d: "content wv =
       getUrl (case map_of (websiteOptions st) c of
                 Some opts \<Rightarrow> opts
               | None \<Rightarrow> DEFAULT_FAITHBRIDGE_OPTIONS)
         ?reference (interfaceLanguage st)"
      "title wv =
         formatReplacementString host
           (localization_getLocalizedString host ''%faithbridge_title_format%'')
           (websiteName (case map_of (websiteOptions st) c of
                           Some opts \<Rightarrow> opts
                         | None \<Rightarrow> DEFAULT_FAITHBRIDGE_OPTIONS))"
      "shouldShowToolbar wv =
         (watchRefChange (case map_of (websiteOptions st) c of
                            Some opts \<Rightarrow> opts
                          | None \<Rightarrow> DEFAULT_FAITHBRIDGE_OPTIONS) \<noteq> DoNotWatch)"
    by blast
  have resolved: "webViewScrollGroupScrRef savedWebView = None \<and>
        ?reference = scrollGroups_getScrRef host None \<or>
      (\<exists>n. webViewScrollGroupScrRef savedWebView = Some (ScrollGroupId n) \<and>
         ?reference = scrollGroups_getScrRef host (Some n)) \<or>
      webViewScrollGroupScrRef savedWebView = Some (ScrRef ?reference)"
    using getCurrentScriptureReference_resolved [of "webViewScrollGroupScrRef savedWebView" host]
    by auto
  have "(\<exists>opts. map_of (websiteOptions st) c = Some opts \<and>
         shouldShowToolbar wv = (watchRefChange opts \<noteq> DoNotWatch) \<and>
         title wv =
           formatReplacementString host
             (localization_getLocalizedString host ''%faithbridge_title_format%'')
             (websiteName opts) \<and>
         (\<exists>reference.
            (webViewScrollGroupScrRef savedWebView = None \<and>
               reference = scrollGroups_getScrRef host None \<or>
             (\<exists>n. webViewScrollGroupScrRef savedWebView = Some (ScrollGroupId n) \<and>
                reference = scrollGroups_getScrRef host (Some n)) \<or>
             webViewScrollGroupScrRef savedWebView = Some (ScrRef reference)) \<and>
            content wv = getUrl opts reference (interfaceLanguage st))) \<or>
      map_of (websiteOptions st) c = None \<and> \<not> shouldShowToolbar wv \<and> content wv = ''''"
  proof (cases "map_of (websiteOptions st) c")
    case None
    with d show ?thesis by (simp add: DEFAULT_FAITHBRIDGE_OPTIONS_def)
  next
    case (Some opts)
    with d have "shouldShowToolbar wv = (watchRefChange opts \<noteq> DoNotWatch)"
      "title wv =
         formatReplacementString host
           (localization_getLocalizedString host ''%faithbridge_title_format%'')
           (websiteName opts)"
      "content wv = getUrl opts ?reference (interfaceLanguage st)"
      by simp_all
    with Some resolved show ?thesis by blast
  qed
  with r
  show "\<exists>wv. fst (getWebView host st savedWebView basicOptions) = Inr wv \<and>
      ((\<exists>opts. map_of (websiteOptions st) c = Some opts \<and>
          shouldShowToolbar wv = (watchRefChange opts \<noteq> DoNotWatch) \<and>
          title wv =
            formatReplacementString host
              (localization_getLocalizedString host ''%faithbridge_title_format%'')
              (websiteName opts) \<and>
          (\<exists>reference.
             (webViewScrollGroupScrRef savedWebView = None \<and>
                reference = scrollGroups_getScrRef host None \<or>
              (\<exists>n. webViewScrollGroupScrRef savedWebView = Some (ScrollGroupId n) \<and>
                 reference = scrollGroups_getScrRef host (Some n)) \<or>
              webViewScrollGroupScrRef savedWebView = Some (ScrRef reference)) \<and>
             content wv = getUrl opts reference (interfaceLanguage st))) \<or>
       map_of (websiteOptions st) c = None \<and> \<not> shouldShowToolbar wv \<and> content wv = '''')"
    by (intro exI [of _ wv]) simp
qed

theorem getWebView_persists_and_restores_command_witness:
  "userData (snd (getWebView sample_host sample_state (sample_webView ''wv4'' None)
       \<lparr>openWebsiteCommand = Some ''x.chapter'', existingId = None\<rparr>))
     ''webViewTypeById_wv4'' = Some ''x.chapter'' \<and>
   map_of (commandByWebViewId (snd (getWebView sample_host sample_state (sample_webView ''wv4'' None)
       \<lparr>openWebsiteCommand = Some ''x.chapter'', existingId = None\<rparr>))) ''wv4'' =
     Some ''x.chapter'' \<and>
   map_of (commandByWebViewId sample_state) ''wv3'' = None \<and>
   map_of (commandByWebViewId (snd (getWebView sample_host sample_state (sample_webView ''wv3'' None)
       \<lparr>openWebsiteCommand = None, existingId = Some ''wv3''\<rparr>))) ''wv3'' = Some ''x.book'' \<and>
   (\<exists>wv. fst (getWebView sample_host sample_state (sample_webView ''wv3'' None)
       \<lparr>openWebsiteCommand = None, existingId = Some ''wv3''\<rparr>) = Inr wv \<and>
      shouldShowToolbar wv \<and> title wv = ''Site: {resourceName}Sample'' \<and>
      content wv = ''https://example.org/en/GEN'')"
proof -
  let ?sv3 = "sample_webView ''wv3'' None"
  let ?bo3 = "\<lparr>openWebsiteCommand = None, existingId = Some ''wv3''\<rparr>"
  note persist = getWebView_persists_and_restores_command [OF sample_webView_type,
      of "\<lparr>openWebsiteCommand = Some ''x.chapter'', existingId = None\<rparr>"
      sample_host sample_state "''wv4''" None]
  note restore = getWebView_persists_and_restores_command [OF sample_webView_type,
      of ?bo3 sample_host sample_state "''wv3''" None]
  have a: "userData (snd (getWebView sample_host sample_state (sample_webView ''wv4'' None)
        \<lparr>openWebsiteCommand = Some ''x.chapter'', existingId = None\<rparr>))
      ''webViewTypeById_wv4'' = Some ''x.chapter''"
    "map_of (commandByWebViewId (snd (getWebView sample_host sample_state (sample_webView ''wv4'' None)
        \<lparr>openWebsiteCommand = Some ''x.chapter'', existingId = None\<rparr>))) ''wv4'' =
      Some ''x.chapter''"
    using persist by (simp_all add: sample_webView_id)
  have n: "map_of (commandByWebViewId sample_state) ''wv3'' = None"
    by (simp add: sample_state_def)
  have u: "userData sample_state ''webViewTypeById_wv3'' = Some ''x.book''"
    by (simp add: sample_state_def)
  have w: "map_of (websiteOptions sample_state) ''x.book'' = Some (sample_options WatchBookChange)"
    by (simp add: sample_state_def sample_config_def)
  from restore n u have b:
    "map_of (commandByWebViewId (snd (getWebView sample_host sample_state ?sv3 ?bo3))) ''wv3'' =
       Some ''x.book''"
    by (simp add: sample_webView_id)
  from restore n u w obtain wv where
    r: "fst (getWebView sample_host sample_state ?sv3 ?bo3) = Inr wv"
    and t: "shouldShowToolbar wv = (watchRefChange (sample_options WatchBookChange) \<noteq> DoNotWatch)"
      "title wv =
         formatReplacementString sample_host
           (localization_getLocalizedString sample_host ''%faithbridge_title_format%'')
           (websiteName (sample_options WatchBookChange))"
      "content wv =
         getUrl (sample_options WatchBookChange) (scrollGroups_getScrRef sample_host None)
           (interfaceLanguage sample_state)"
    by (auto simp: sample_webView_def)
  from t have "shouldShowToolbar wv \<and> title wv = ''Site: {resourceName}Sample'' \<and>
      content wv = ''https://example.org/en/GEN''"
    by (simp add: sample_options_def sample_host_def sample_state_def ref_GEN_1_1_def)
  with r a n b show ?thesis by blast
qed

text \<open>
  C10. For a saved web view whose type is not \<open>faithbridge.webView\<close>, \<^verbatim>\<open>getWebView\<close>
  throws, and the state afterwards is the state before: neither map is modified and no
  user data is written.
\<close>

theorem getWebView_rejects_foreign_type:
  assumes "webViewType savedWebView \<noteq> FAITHBRIDGE_WEBVIEW_TYPE"
  shows "\<exists>message. getWebView host st savedWebView basicOptions = (Inl (ProviderError message), st)"
  using assms by (simp add: getWebView_def)

theorem getWebView_rejects_foreign_type_witness:
  "getWebView sample_host sample_state
     \<lparr>webViewId = ''wv7'', webViewType = ''other.webView'', webViewScrollGroupScrRef = None\<rparr>
     \<lparr>openWebsiteCommand = Some ''x.verse'', existingId = None\<rparr> =
   (Inl (ProviderError
      ''faithbridge.webView provider received request to provide a other.webView web view''),
    sample_state)"
proof -
  have t: "webViewType
      \<lparr>webViewId = ''wv7'', webViewType = ''other.webView'', webViewScrollGroupScrRef = None\<rparr>
      \<noteq> FAITHBRIDGE_WEBVIEW_TYPE"
    by (simp add: FAITHBRIDGE_WEBVIEW_TYPE_def)
  from getWebView_rejects_foreign_type [OF t, of sample_host sample_state
      "\<lparr>openWebsiteCommand = Some ''x.verse'', existingId = None\<rparr>"]
  show ?thesis
    by (auto simp: getWebView_def FAITHBRIDGE_WEBVIEW_TYPE_def)
qed

section \<open>Opening a web view by command\<close>

text \<open>
  C4. \<^verbatim>\<open>openFaithbridgeByType\<close> with command \<open>c\<close> calls \<^verbatim>\<open>openWebView\<close> with the
  faithbridge type and options that carry \<open>c\<close>; their \<open>existingId\<close> is a web view id that
  \<^verbatim>\<open>commandByWebViewId\<close> maps to \<open>c\<close> when there is one, and undefined when there is none.
\<close>

theorem openFaithbridgeByType_reuses_existing_view:
  assumes "distinct (map fst (commandByWebViewId st))"
    and "openWebsiteCommand basicOptions = Some c"
  shows "\<exists>opts. openFaithbridgeByType st basicOptions = OpenWebView FAITHBRIDGE_WEBVIEW_TYPE opts \<and>
           openWebsiteCommand opts = Some c \<and>
           ((\<exists>i. map_of (commandByWebViewId st) i = Some c) \<longrightarrow>
              (\<exists>i. existingId opts = Some i \<and> map_of (commandByWebViewId st) i = Some c)) \<and>
           ((\<nexists>i. map_of (commandByWebViewId st) i = Some c) \<longrightarrow> existingId opts = None)"
proof (cases "find (\<lambda>(_, command). Some command = Some c) (commandByWebViewId st)")
  case None
  then have "\<forall>e \<in> set (commandByWebViewId st). snd e \<noteq> c"
    using find_command_None [of "Some c" "commandByWebViewId st"] by auto
  then have "\<nexists>i. map_of (commandByWebViewId st) i = Some c"
    by (force dest!: map_of_SomeD)
  with None assms show ?thesis
    by (simp add: openFaithbridgeByType_def)
next
  case (Some e)
  then have "e \<in> set (commandByWebViewId st)" "snd e = c"
    using find_command_Some [of "Some c" "commandByWebViewId st" e] by auto
  then have "map_of (commandByWebViewId st) (fst e) = Some c"
    using assms(1) by (cases e) auto
  with Some assms show ?thesis
    by (auto simp: openFaithbridgeByType_def)
qed

theorem openFaithbridgeByType_reuses_existing_view_witness:
  "openFaithbridgeByType sample_state \<lparr>openWebsiteCommand = Some ''x.verse'', existingId = None\<rparr> =
     OpenWebView ''faithbridge.webView''
       \<lparr>openWebsiteCommand = Some ''x.verse'', existingId = Some ''wv2''\<rparr> \<and>
   openFaithbridgeByType sample_state \<lparr>openWebsiteCommand = Some ''x.book'', existingId = None\<rparr> =
     OpenWebView ''faithbridge.webView''
       \<lparr>openWebsiteCommand = Some ''x.book'', existingId = None\<rparr>"
proof -
  have m: "map_of (commandByWebViewId sample_state) i = Some ''x.verse'' \<longleftrightarrow> i = ''wv2''" for i
    by (auto simp: sample_state_def split: if_splits)
  have n: "\<nexists>i. map_of (commandByWebViewId sample_state) i = Some ''x.book''"
    by (auto simp: sample_state_def split: if_splits)
  from openFaithbridgeByType_reuses_existing_view [OF sample_state_keys_distinct,
      of "\<lparr>openWebsiteCommand = Some ''x.verse'', existingId = None\<rparr>" "''x.verse''"]
  obtain o1 where o1:
    "openFaithbridgeByType sample_state \<lparr>openWebsiteCommand = Some ''x.verse'', existingId = None\<rparr> =
       OpenWebView FAITHBRIDGE_WEBVIEW_TYPE o1"
    "openWebsiteCommand o1 = Some ''x.verse''"
    "existingId o1 = Some ''wv2''"
    using m by auto
  from openFaithbridgeByType_reuses_existing_view [OF sample_state_keys_distinct,
      of "\<lparr>openWebsiteCommand = Some ''x.book'', existingId = None\<rparr>" "''x.book''"]
  obtain o2 where o2:
    "openFaithbridgeByType sample_state \<lparr>openWebsiteCommand = Some ''x.book'', existingId = None\<rparr> =
       OpenWebView FAITHBRIDGE_WEBVIEW_TYPE o2"
    "openWebsiteCommand o2 = Some ''x.book''"
    "existingId o2 = None"
    using n by auto
  from o1 o2 show ?thesis
    by (simp add: FAITHBRIDGE_WEBVIEW_TYPE_def)
qed

section \<open>Update and close events\<close>

text \<open>
  C5. For a tracked web view whose command is configured with \<open>DoNotWatch\<close>, the handler
  of a scripture reference update does not reopen that view, whatever the update, and the
  handler of a web view update for that view makes no call at all.
\<close>

theorem doNotWatch_view_never_reopened:
  assumes "distinct (map fst (commandByWebViewId st))"
    and "map_of (commandByWebViewId st) (webViewId webView) = Some command"
    and "map_of (websiteOptions st) command = Some opts"
    and "watchRefChange opts = DoNotWatch"
  shows "reopenFaithbridgeByExistingId (webViewId webView) \<notin>
           set (onDidUpdateScrRef st scrollGroupUpdateInfo) \<and>
         onDidUpdateWebView host st webView = []"
proof -
  have "\<not> shouldUpdateOnScriptureRefChange (websiteOptions st) command a b" for a b
    using assms(3,4) by (simp add: shouldUpdateOnScriptureRefChange_def)
  moreover have "c' = command" if "(webViewId webView, c') \<in> set (commandByWebViewId st)" for c'
    using that assms(1,2) by auto
  ultimately have "reopenFaithbridgeByExistingId (webViewId webView) \<notin>
      set (onDidUpdateScrRef st scrollGroupUpdateInfo)"
    by (auto simp: onDidUpdateScrRef_def reopenFaithbridgeByExistingId_def)
  moreover have "onDidUpdateWebView host st webView = []"
    using assms(2,3,4) by (simp add: onDidUpdateWebView_def)
  ultimately show ?thesis by simp
qed

theorem doNotWatch_view_never_reopened_witness:
  "reopenFaithbridgeByExistingId ''wv1'' \<notin>
     set (onDidUpdateScrRef sample_state \<lparr>scrollGroupId = 0, updatedScrRef = ref_EXO_1_1\<rparr>) \<and>
   onDidUpdateWebView sample_host sample_state (sample_webView ''wv1'' (Some (ScrollGroupId 1))) = []"
proof -
  have c: "map_of (commandByWebViewId sample_state)
       (webViewId (sample_webView ''wv1'' (Some (ScrollGroupId 1)))) = Some ''x.none''"
    by (simp add: sample_state_def sample_webView_def)
  have w: "map_of (websiteOptions sample_state) ''x.none'' = Some (sample_options DoNotWatch)"
    by (simp add: sample_state_def sample_config_def)
  have n: "watchRefChange (sample_options DoNotWatch) = DoNotWatch"
    by (simp add: sample_options_def)
  from doNotWatch_view_never_reopened [OF sample_state_keys_distinct c w n,
      of "\<lparr>scrollGroupId = 0, updatedScrRef = ref_EXO_1_1\<rparr>" sample_host]
  show ?thesis by (simp add: sample_webView_def)
qed

text \<open>
  C6. A close event for a view id present in \<^verbatim>\<open>commandByWebViewId\<close> leaves no entry for
  that id in either map and no record under \<open>webViewTypeById_\<close> followed by the id; the
  entries of every other view id, every other key of the user data, the configuration
  and the interface language are as before. A close event for an untracked id leaves the
  whole state as it was.
\<close>

theorem onDidCloseWebView_removes_own_state_only:
  "(map_of (commandByWebViewId st) (webViewId wv) \<noteq> None \<longrightarrow>
      map_of (commandByWebViewId (onDidCloseWebView st wv)) (webViewId wv) = None \<and>
      map_of (scrollGroupInfoByWebViewId (onDidCloseWebView st wv)) (webViewId wv) = None \<and>
      userData (onDidCloseWebView st wv) (USER_DATA_KEY @ webViewId wv) = None \<and>
      (\<forall>j. j \<noteq> webViewId wv \<longrightarrow>
         map_of (commandByWebViewId (onDidCloseWebView st wv)) j =
           map_of (commandByWebViewId st) j \<and>
         map_of (scrollGroupInfoByWebViewId (onDidCloseWebView st wv)) j =
           map_of (scrollGroupInfoByWebViewId st) j \<and>
         userData (onDidCloseWebView st wv) (USER_DATA_KEY @ j) =
           userData st (USER_DATA_KEY @ j)) \<and>
      (\<forall>k. k \<noteq> USER_DATA_KEY @ webViewId wv \<longrightarrow>
         userData (onDidCloseWebView st wv) k = userData st k) \<and>
      websiteOptions (onDidCloseWebView st wv) = websiteOptions st \<and>
      interfaceLanguage (onDidCloseWebView st wv) = interfaceLanguage st) \<and>
   (map_of (commandByWebViewId st) (webViewId wv) = None \<longrightarrow> onDidCloseWebView st wv = st)"
proof (cases "map_of (commandByWebViewId st) (webViewId wv)")
  case None
  then show ?thesis by (simp add: onDidCloseWebView_def)
next
  case (Some c)
  then have eq: "onDidCloseWebView st wv =
      st\<lparr>commandByWebViewId := AList.delete (webViewId wv) (commandByWebViewId st),
         scrollGroupInfoByWebViewId :=
           AList.delete (webViewId wv) (scrollGroupInfoByWebViewId st),
         userData := (userData st)(USER_DATA_KEY @ webViewId wv := None)\<rparr>"
    by (simp add: onDidCloseWebView_def Let_def)
  show ?thesis
    unfolding eq using Some
    by (simp add: AList.delete_conv')
qed

theorem onDidCloseWebView_removes_own_state_only_witness:
  "map_of (commandByWebViewId (onDidCloseWebView sample_state (sample_webView ''wv1'' None)))
     ''wv1'' = None \<and>
   map_of (scrollGroupInfoByWebViewId (onDidCloseWebView sample_state (sample_webView ''wv1'' None)))
     ''wv1'' = None \<and>
   userData (onDidCloseWebView sample_state (sample_webView ''wv1'' None))
     ''webViewTypeById_wv1'' = None \<and>
   map_of (commandByWebViewId (onDidCloseWebView sample_state (sample_webView ''wv1'' None)))
     ''wv2'' = Some ''x.verse'' \<and>
   userData (onDidCloseWebView sample_state (sample_webView ''wv1'' None))
     ''webViewTypeById_wv2'' = Some ''x.verse'' \<and>
   onDidCloseWebView sample_state (sample_webView ''wv9'' None) = sample_state"
proof -
  let ?closed = "onDidCloseWebView sample_state (sample_webView ''wv1'' None)"
  have t: "map_of (commandByWebViewId sample_state) (webViewId (sample_webView ''wv1'' None)) \<noteq> None"
    by (simp add: sample_state_def sample_webView_def)
  have u: "map_of (commandByWebViewId sample_state) (webViewId (sample_webView ''wv9'' None)) = None"
    by (simp add: sample_state_def sample_webView_def)
  note a = onDidCloseWebView_removes_own_state_only [of sample_state "sample_webView ''wv1'' None"]
  note b = onDidCloseWebView_removes_own_state_only [of sample_state "sample_webView ''wv9'' None"]
  from a t have a1:
    "map_of (commandByWebViewId ?closed) ''wv1'' = None"
    "map_of (scrollGroupInfoByWebViewId ?closed) ''wv1'' = None"
    "userData ?closed ''webViewTypeById_wv1'' = None"
    by (simp_all add: sample_webView_id USER_DATA_KEY_def)
  from a t have a2: "\<forall>j. j \<noteq> ''wv1'' \<longrightarrow>
      map_of (commandByWebViewId ?closed) j = map_of (commandByWebViewId sample_state) j \<and>
      userData ?closed (USER_DATA_KEY @ j) = userData sample_state (USER_DATA_KEY @ j)"
    by (simp add: sample_webView_id)
  from a2 [rule_format, of "''wv2''"] have a3:
    "map_of (commandByWebViewId ?closed) ''wv2'' = Some ''x.verse''"
    "userData ?closed ''webViewTypeById_wv2'' = Some ''x.verse''"
    by (simp_all add: sample_state_def USER_DATA_KEY_def)
  from b u have b1: "onDidCloseWebView sample_state (sample_webView ''wv9'' None) = sample_state"
    by simp
  from a1 a3 b1 show ?thesis by simp
qed

text \<open>
  C8. When the comparison of the library gives 0 for a reference against itself, the
  scroll group change detector reports no change for an identical position, be it
  undefined, a scroll group number or a reference object.
\<close>

theorem hasScrollGroupChanged_same_position:
  assumes "\<And>r. cmp r r = 0"
  shows "\<not> hasScrollGroupChanged cmp x x"
  using assms
  by (auto simp: hasScrollGroupChanged_def split: option.splits ScrollGroupScrRef.splits)

theorem hasScrollGroupChanged_same_position_witness:
  "\<not> hasScrollGroupChanged (compareScrRefs sample_host) None None \<and>
   \<not> hasScrollGroupChanged (compareScrRefs sample_host)
       (Some (ScrollGroupId 2)) (Some (ScrollGroupId 2)) \<and>
   \<not> hasScrollGroupChanged (compareScrRefs sample_host)
       (Some (ScrRef ref_GEN_1_2)) (Some (ScrRef ref_GEN_1_2))"
proof -
  have r: "compareScrRefs sample_host r r = 0" for r
    by (simp add: sample_host_def)
  from hasScrollGroupChanged_same_position [of "compareScrRefs sample_host", OF r]
  show ?thesis by blast
qed

section \<open>The static configuration\<close>

text \<open>
  C7. \<^verbatim>\<open>getWebsiteOptions\<close> is the map with the single entry for
  \<open>faithbridge.openFaithbridge\<close>, whose website name is \<open>Faithbridge\<close> and whose
  sensitivity is \<open>WatchVerseChange\<close>. \<^verbatim>\<open>registerOpenWebsiteCommandHandlers\<close> stores that
  map and registers one handler for each of its entries, under the entry's command; the
  handler opens the web view for that command.
\<close>

theorem site_configuration_one_entry_per_command:
  "\<exists>opts. getWebsiteOptions = [(''faithbridge.openFaithbridge'', opts)] \<and>
     websiteName opts = ''Faithbridge'' \<and>
     watchRefChange opts = WatchVerseChange \<and>
     fst (registerOpenWebsiteCommandHandlers st) =
       [(''faithbridge.openFaithbridge'',
         \<lambda>s. openFaithbridgeByType s
                \<lparr>openWebsiteCommand = Some ''faithbridge.openFaithbridge'', existingId = None\<rparr>)] \<and>
     map fst (fst (registerOpenWebsiteCommandHandlers st)) = map fst getWebsiteOptions \<and>
     websiteOptions (snd (registerOpenWebsiteCommandHandlers st)) = getWebsiteOptions"
  by (simp add: getWebsiteOptions_def registerOpenWebsiteCommandHandlers_def Let_def)

text \<open>
  C9. The URL builder configured for \<open>faithbridge.openFaithbridge\<close> returns
  \<open>https://faithbridge.multilingualai.com/bible-well\<close> for every reference and every
  list of interface languages.
\<close>

theorem faithbridge_getUrl_constant:
  "\<exists>opts. map_of getWebsiteOptions ''faithbridge.openFaithbridge'' = Some opts \<and>
     (\<forall>reference languages.
        getUrl opts reference languages = ''https://faithbridge.multilingualai.com/bible-well'')"
  by (simp add: getWebsiteOptions_def)

section \<open>Further properties of the provider and the handlers\<close>

text \<open>
  X1. When the command found for a faithbridge-type view (in the options, else in the
  in-memory map, else in the user data) has no entry in \<^verbatim>\<open>websiteOptions\<close>, the default
  options apply: the returned definition has the empty string as content, content type
  \<open>url\<close>, and no toolbar.
\<close>

theorem getWebView_unconfigured_command_default:
  assumes "webViewType savedWebView = FAITHBRIDGE_WEBVIEW_TYPE"
    and "openWebsiteCommand basicOptions = Some command \<or>
         openWebsiteCommand basicOptions = None \<and>
           map_of (commandByWebViewId st) (webViewId savedWebView) = Some command \<or>
         openWebsiteCommand basicOptions = None \<and>
           map_of (commandByWebViewId st) (webViewId savedWebView) = None \<and>
           userData st (''webViewTypeById_'' @ webViewId savedWebView) = Some command"
    and "map_of (websiteOptions st) command = None"
  shows "\<exists>wv st'. getWebView host st savedWebView basicOptions = (Inr wv, st') \<and>
           content wv = '''' \<and> contentType wv = ''url'' \<and> \<not> shouldShowToolbar wv"
proof -
  from assms(2) have "getWebView_command st (webViewId savedWebView)
      (USER_DATA_KEY @ webViewId savedWebView) basicOptions = Inr command"
    by (simp only: getWebView_command_found)
  from getWebView_returned_definition [OF assms(1) this, of host] assms(3)
  show ?thesis
    by (auto simp: DEFAULT_FAITHBRIDGE_OPTIONS_def)
qed

theorem getWebView_unconfigured_command_default_witness:
  "\<exists>wv st'. getWebView sample_host sample_state (sample_webView ''wv5'' None)
       \<lparr>openWebsiteCommand = Some ''x.unknown'', existingId = None\<rparr> = (Inr wv, st') \<and>
     content wv = '''' \<and> contentType wv = ''url'' \<and> \<not> shouldShowToolbar wv"
proof -
  have c: "openWebsiteCommand \<lparr>openWebsiteCommand = Some ''x.unknown'', existingId = None\<rparr> =
        Some ''x.unknown'' \<or>
      openWebsiteCommand \<lparr>openWebsiteCommand = Some ''x.unknown'', existingId = None\<rparr> = None \<and>
        map_of (commandByWebViewId sample_state) (webViewId (sample_webView ''wv5'' None)) =
          Some ''x.unknown'' \<or>
      openWebsiteCommand \<lparr>openWebsiteCommand = Some ''x.unknown'', existingId = None\<rparr> = None \<and>
        map_of (commandByWebViewId sample_state) (webViewId (sample_webView ''wv5'' None)) = None \<and>
        userData sample_state (''webViewTypeById_'' @ webViewId (sample_webView ''wv5'' None)) =
          Some ''x.unknown''"
    by simp
  have n: "map_of (websiteOptions sample_state) ''x.unknown'' = None"
    by (simp add: sample_state_def sample_config_def)
  from getWebView_unconfigured_command_default [OF sample_webView_type c n, of sample_host]
  show ?thesis .
qed

text \<open>
  X2. When a faithbridge-type request carries no command, the view id is absent from the
  in-memory map and the user data holds no record for it, \<^verbatim>\<open>getWebView\<close> rejects with
  the rejection of \<^verbatim>\<open>readUserData\<close>; the scroll group information of the view, with the
  reference resolved through the host or taken from the web view, is stored by then, and
  nothing else of the state has changed.
\<close>

theorem getWebView_without_record_rejects:
  assumes "webViewType savedWebView = FAITHBRIDGE_WEBVIEW_TYPE"
    and "openWebsiteCommand basicOptions = None"
    and "map_of (commandByWebViewId st) (webViewId savedWebView) = None"
    and "userData st (''webViewTypeById_'' @ webViewId savedWebView) = None"
  shows "\<exists>reference.
           (webViewScrollGroupScrRef savedWebView = None \<and>
              reference = scrollGroups_getScrRef host None \<or>
            (\<exists>n. webViewScrollGroupScrRef savedWebView = Some (ScrollGroupId n) \<and>
               reference = scrollGroups_getScrRef host (Some n)) \<or>
            webViewScrollGroupScrRef savedWebView = Some (ScrRef reference)) \<and>
           getWebView host st savedWebView basicOptions =
             (Inl (ReadUserDataRejected (''webViewTypeById_'' @ webViewId savedWebView)),
              st\<lparr>scrollGroupInfoByWebViewId :=
                   AList.update (webViewId savedWebView)
                     \<lparr>scrollGroupScrRef = webViewScrollGroupScrRef savedWebView,
                      scrRef = reference\<rparr>
                     (scrollGroupInfoByWebViewId st)\<rparr>)"
proof -
  let ?reference = "getCurrentScriptureReference host (webViewScrollGroupScrRef savedWebView)"
  have resolved: "webViewScrollGroupScrRef savedWebView = None \<and>
        ?reference = scrollGroups_getScrRef host None \<or>
      (\<exists>n. webViewScrollGroupScrRef savedWebView = Some (ScrollGroupId n) \<and>
         ?reference = scrollGroups_getScrRef host (Some n)) \<or>
      webViewScrollGroupScrRef savedWebView = Some (ScrRef ?reference)"
    using getCurrentScriptureReference_resolved [of "webViewScrollGroupScrRef savedWebView" host]
    by auto
  have "getWebView host st savedWebView basicOptions =
      (Inl (ReadUserDataRejected (''webViewTypeById_'' @ webViewId savedWebView)),
       st\<lparr>scrollGroupInfoByWebViewId :=
            AList.update (webViewId savedWebView)
              \<lparr>scrollGroupScrRef = webViewScrollGroupScrRef savedWebView,
               scrRef = ?reference\<rparr>
              (scrollGroupInfoByWebViewId st)\<rparr>)"
    using assms
    by (simp add: getWebView_def Let_def getWebView_command_def USER_DATA_KEY_def)
  with resolved show ?thesis by blast
qed

theorem getWebView_without_record_rejects_witness:
  "fst (getWebView sample_host sample_state (sample_webView ''wv6'' None)
       \<lparr>openWebsiteCommand = None, existingId = Some ''wv6''\<rparr>) =
     Inl (ReadUserDataRejected ''webViewTypeById_wv6'') \<and>
   map_of (scrollGroupInfoByWebViewId (snd (getWebView sample_host sample_state (sample_webView ''wv6'' None)
       \<lparr>openWebsiteCommand = None, existingId = Some ''wv6''\<rparr>))) ''wv6'' =
     Some \<lparr>scrollGroupScrRef = None, scrRef = ref_GEN_1_1\<rparr> \<and>
   map_of (commandByWebViewId (snd (getWebView sample_host sample_state (sample_webView ''wv6'' None)
       \<lparr>openWebsiteCommand = None, existingId = Some ''wv6''\<rparr>))) ''wv6'' = None"
proof -
  let ?bo = "\<lparr>openWebsiteCommand = None, existingId = Some ''wv6''\<rparr>"
  have a: "openWebsiteCommand ?bo = None" by simp
  have b: "map_of (commandByWebViewId sample_state) (webViewId (sample_webView ''wv6'' None)) = None"
    by (simp add: sample_state_def sample_webView_def)
  have c: "userData sample_state (''webViewTypeById_'' @ webViewId (sample_webView ''wv6'' None)) = None"
    by (simp add: sample_state_def sample_webView_def)
  from getWebView_without_record_rejects [OF sample_webView_type a b c, of sample_host]
  show ?thesis
    by (auto simp: sample_webView_def AList.update_conv' sample_host_def sample_state_def)
qed

text \<open>
  X3. A tracked web view with cached scroll group information is reopened by the handler
  of a scripture reference update whenever the policy of its command reports a change
  from the cached reference to the updated one.
\<close>

theorem watched_view_reopened_on_change:
  assumes "map_of (commandByWebViewId st) wvId = Some command"
    and "map_of (scrollGroupInfoByWebViewId st) wvId = Some info"
    and "shouldUpdateOnScriptureRefChange (websiteOptions st) command (scrRef info)
           (updatedScrRef scrollGroupUpdateInfo)"
  shows "reopenFaithbridgeByExistingId wvId \<in> set (onDidUpdateScrRef st scrollGroupUpdateInfo)"
proof -
  from assms(1) have "(wvId, command) \<in> set (commandByWebViewId st)"
    by (rule map_of_SomeD)
  with assms(2,3) show ?thesis
    by (force simp: onDidUpdateScrRef_def)
qed

theorem watched_view_reopened_on_change_witness:
  "reopenFaithbridgeByExistingId ''wv2'' \<in>
     set (onDidUpdateScrRef sample_state \<lparr>scrollGroupId = 0, updatedScrRef = ref_GEN_1_2\<rparr>)"
proof -
  have a: "map_of (commandByWebViewId sample_state) ''wv2'' = Some ''x.verse''"
    by (simp add: sample_state_def)
  have b: "map_of (scrollGroupInfoByWebViewId sample_state) ''wv2'' =
      Some \<lparr>scrollGroupScrRef = Some (ScrollGroupId 0), scrRef = ref_GEN_1_1\<rparr>"
    by (simp add: sample_state_def)
  have c: "shouldUpdateOnScriptureRefChange (websiteOptions sample_state) ''x.verse''
      (scrRef \<lparr>scrollGroupScrRef = Some (ScrollGroupId 0), scrRef = ref_GEN_1_1\<rparr>)
      (updatedScrRef \<lparr>scrollGroupId = 0, updatedScrRef = ref_GEN_1_2\<rparr>)"
    by (simp add: shouldUpdateOnScriptureRefChange_def sample_state_def sample_config_def
          sample_options_def ref_GEN_1_1_def ref_GEN_1_2_def)
  from watched_view_reopened_on_change [OF a b c] show ?thesis .
qed

end
